theory Spec2Isabelle
  imports Complex_Main "HOL-Library.List_Lexorder" "HOL-Library.Char_ord"
begin

section \<open>Lequel: language identification by trigram profiles\<close>

text \<open>
  A shallow embedding of \<^verbatim>\<open>Lequel.cpp\<close>: \<^verbatim>\<open>buildTrigramProfile\<close>,
  \<^verbatim>\<open>normalizeTrigramProfile\<close>, \<^verbatim>\<open>getCosineSimilarity\<close> and
  \<^verbatim>\<open>identifyLanguage\<close>.

  \<^item> A \<^verbatim>\<open>std::string\<close> is a \<open>string\<close>, a list of bytes. The order of
    \<^verbatim>\<open>std::less<std::string>\<close> is the lexicographic order on the byte values, which is
    the order of \<open>char list\<close> here.
  \<^item> A \<^verbatim>\<open>TrigramProfile\<close> (a \<^verbatim>\<open>std::map<std::string, float>\<close>) is an association
    list that is kept strictly sorted by key; a range-for over the map is a traversal of the
    list.
  \<^item> The arithmetic of \<^verbatim>\<open>float\<close> is a parameter, the record \<open>float_ops\<close>: every
    definition names the operation the source applies, and a theorem proved for every
    \<open>float_ops\<close> holds whatever the operations round to and whatever they do with
    infinities and NaN.
  \<^item> The \<^verbatim>\<open>std::wstring_convert\<close> object is a parameter as well, the record
    \<open>wstring_convert\<close>: \<open>None\<close> is the \<^verbatim>\<open>std::range_error\<close> that
    \<^verbatim>\<open>from_bytes\<close> and \<^verbatim>\<open>to_bytes\<close> throw when a conversion fails, the
    object having been built without error strings. Every call starts in the initial
    conversion state, so the two are functions of their argument. The type \<open>'c\<close> is that
    of the elements of a \<^verbatim>\<open>std::wstring\<close>.
  \<^item> An exception that leaves a function is the \<open>Inl\<close> of its result.

  The file holds the source twice. The two copies differ in the facet of the converter
  (\<^verbatim>\<open>codecvt_utf8_utf16\<close> in the first, \<^verbatim>\<open>codecvt_utf8\<close> in the second), which the
  parameter covers, and in the bytes of the message that \<^verbatim>\<open>identifyLanguage\<close> returns
  when it has found no language.
\<close>

subsection \<open>The data model\<close>

text \<open>
  Modelled from the spec: the header \<^verbatim>\<open>Lequel.h\<close>, which declares \<^verbatim>\<open>Text\<close>,
  \<^verbatim>\<open>TrigramProfile\<close>, \<^verbatim>\<open>LanguageProfile\<close> and \<^verbatim>\<open>LanguageProfiles\<close>, is not among
  the sources. A text is an ordered sequence of lines, a trigram profile a mapping with unique
  keys from a trigram to a floating-point weight, a language profile a pair of a language
  code and a trigram profile, and the language profiles an ordered collection. The source
  uses the profile through \<^verbatim>\<open>find\<close>, \<^verbatim>\<open>end\<close>, \<^verbatim>\<open>insert\<close> of a
  \<^verbatim>\<open>std::pair<string, float>\<close>, \<^verbatim>\<open>operator[]\<close> and a range-for over pairs, and the
  language profile through its members \<^verbatim>\<open>languageCode\<close> and \<^verbatim>\<open>trigramProfile\<close>.
\<close>

type_synonym 'f TrigramProfile = "(string \<times> 'f) list"

type_synonym Text = "string list"

record 'f LanguageProfile =
  languageCode :: string
  trigramProfile :: "'f TrigramProfile"

type_synonym 'f LanguageProfiles = "'f LanguageProfile list"

datatype error = range_error | out_of_range

record 'f float_ops =
  fzero :: 'f
  fone :: 'f
  fadd :: "'f \<Rightarrow> 'f \<Rightarrow> 'f"
  fmul :: "'f \<Rightarrow> 'f \<Rightarrow> 'f"
  fdiv :: "'f \<Rightarrow> 'f \<Rightarrow> 'f"
  fsqrt :: "'f \<Rightarrow> 'f"
  fgt :: "'f \<Rightarrow> 'f \<Rightarrow> bool"

record 'c wstring_convert =
  from_bytes :: "string \<Rightarrow> 'c list option"
  to_bytes :: "'c list \<Rightarrow> string option"

text \<open>The invariant of a \<^verbatim>\<open>std::map\<close>: the keys are strictly increasing.\<close>

definition is_map :: "'f TrigramProfile \<Rightarrow> bool" where
  "is_map p = (sorted (map fst p) \<and> distinct (map fst p))"

subsection \<open>Operations of the standard library\<close>

text \<open>\<^verbatim>\<open>s.substr(pos, n)\<close> throws \<^verbatim>\<open>std::out_of_range\<close> when \<open>pos\<close> is beyond the size.\<close>

definition substr :: "'a list \<Rightarrow> nat \<Rightarrow> nat \<Rightarrow> error + 'a list" where
  "substr s pos n = (if length s < pos then Inl out_of_range else Inr (take n (drop pos s)))"

text \<open>\<^verbatim>\<open>it->second++\<close> on the entry that \<^verbatim>\<open>find\<close> returned.\<close>

fun increment :: "'f float_ops \<Rightarrow> string \<Rightarrow> 'f TrigramProfile \<Rightarrow> 'f TrigramProfile" where
  "increment ops k [] = []"
| "increment ops k ((k', v) # p) =
     (if k' = k then (k', fadd ops v (fone ops)) # p else (k', v) # increment ops k p)"

text \<open>\<^verbatim>\<open>profile.insert(pair)\<close> for a key that is not in the map.\<close>

definition insert_pair :: "string \<times> 'f \<Rightarrow> 'f TrigramProfile \<Rightarrow> 'f TrigramProfile" where
  "insert_pair kv p = insort_key fst kv p"

subsection \<open>buildTrigramProfile\<close>

text \<open>The first statement of the loop over the lines: one trailing carriage return is removed.\<close>

definition strip_cr :: "string \<Rightarrow> error + string" where
  "strip_cr line =
     (if 0 < length line \<and> line ! (length line - 1) = CHR 0x0D
      then substr line 0 (length line - 1) else Inr line)"

text \<open>The body of the inner loop from \<^verbatim>\<open>profile.find\<close> on.\<close>

definition count_trigram :: "'f float_ops \<Rightarrow> 'f TrigramProfile \<Rightarrow> string \<Rightarrow> 'f TrigramProfile" where
  "count_trigram ops profile trigram =
     (case map_of profile trigram of
        Some _ \<Rightarrow> increment ops trigram profile
      | None \<Rightarrow> insert_pair (trigram, fone ops) profile)"

text \<open>
  The inner loop \<^verbatim>\<open>for (auto letter : unicodeString)\<close>: the second argument is what is
  left of the traversal, \<open>i\<close> is the counter that \<^verbatim>\<open>substr(i++, 3)\<close> reads and
  increments. The counter is an \<^verbatim>\<open>int\<close> in the source and a natural number here: a line
  is taken to have fewer than \<open>2 ^ 31\<close> elements.
\<close>

fun trigram_loop ::
  "'c wstring_convert \<Rightarrow> 'f float_ops \<Rightarrow> 'c list \<Rightarrow> 'c list \<Rightarrow> nat \<Rightarrow> 'f TrigramProfile
    \<Rightarrow> error + 'f TrigramProfile" where
  "trigram_loop conv ops unicodeString [] i profile = Inr profile"
| "trigram_loop conv ops unicodeString (letter # rest) i profile =
     (case substr unicodeString i 3 of
        Inl e \<Rightarrow> Inl e
      | Inr wtrigram \<Rightarrow>
          (case to_bytes conv wtrigram of
             None \<Rightarrow> Inl range_error
           | Some trigram \<Rightarrow>
               trigram_loop conv ops unicodeString rest (i + 1)
                 (count_trigram ops profile trigram)))"

text \<open>
  The first statements of the body of the loop over the lines: the carriage return is
  removed and the line is converted.
\<close>

definition decode_line :: "'c wstring_convert \<Rightarrow> string \<Rightarrow> error + 'c list" where
  "decode_line conv line0 =
     (case strip_cr line0 of
        Inl e \<Rightarrow> Inl e
      | Inr line \<Rightarrow>
          (case from_bytes conv line of
             None \<Rightarrow> Inl range_error
           | Some unicodeString \<Rightarrow> Inr unicodeString))"

text \<open>The body of the loop over the lines.\<close>

definition line_step ::
  "'c wstring_convert \<Rightarrow> 'f float_ops \<Rightarrow> 'f TrigramProfile \<Rightarrow> string
    \<Rightarrow> error + 'f TrigramProfile" where
  "line_step conv ops profile line =
     (case decode_line conv line of
        Inl e \<Rightarrow> Inl e
      | Inr unicodeString \<Rightarrow>
          if length unicodeString < 3 then Inr profile
          else trigram_loop conv ops unicodeString unicodeString 0 profile)"

fun line_loop ::
  "'c wstring_convert \<Rightarrow> 'f float_ops \<Rightarrow> 'f TrigramProfile \<Rightarrow> Text
    \<Rightarrow> error + 'f TrigramProfile" where
  "line_loop conv ops profile [] = Inr profile"
| "line_loop conv ops profile (line # text) =
     (case line_step conv ops profile line of
        Inl e \<Rightarrow> Inl e
      | Inr profile' \<Rightarrow> line_loop conv ops profile' text)"

definition buildTrigramProfile ::
  "'c wstring_convert \<Rightarrow> 'f float_ops \<Rightarrow> Text \<Rightarrow> error + 'f TrigramProfile" where
  "buildTrigramProfile conv ops text = line_loop conv ops [] text"

subsection \<open>normalizeTrigramProfile\<close>

text \<open>
  The function is \<^verbatim>\<open>void\<close> and changes the map it is given: the model returns the new
  map. Its body has no \<^verbatim>\<open>throw\<close> and calls nothing that throws, so the result is
  always an \<open>Inr\<close>.
\<close>

definition normalizeTrigramProfile ::
  "'f float_ops \<Rightarrow> 'f TrigramProfile \<Rightarrow> error + 'f TrigramProfile" where
  "normalizeTrigramProfile ops profile =
     (let tot = foldl (\<lambda>tot el. fadd ops tot (snd el)) (fzero ops) profile;
          tot = fsqrt ops tot
      in Inr (map (\<lambda>el. (fst el, fdiv ops (snd el) tot)) profile))"

subsection \<open>getCosineSimilarity\<close>

text \<open>
  \<^verbatim>\<open>languageProfile[p1.first]\<close> is evaluated only after \<^verbatim>\<open>find\<close> has found the key,
  so it reads the entry and inserts nothing.
\<close>

definition getCosineSimilarity ::
  "'f float_ops \<Rightarrow> 'f TrigramProfile \<Rightarrow> 'f TrigramProfile \<Rightarrow> 'f" where
  "getCosineSimilarity ops textProfile languageProfile =
     foldl (\<lambda>simCos p1.
              case map_of languageProfile (fst p1) of
                Some w \<Rightarrow> fadd ops simCos (fmul ops (snd p1) w)
              | None \<Rightarrow> simCos)
       (fzero ops) textProfile"

subsection \<open>identifyLanguage\<close>

text \<open>
  The message of the second copy of the source, whose bytes are UTF-8. The first copy has
  other bytes in the place of the two of the accented letter.
\<close>

definition noMatchMessage :: string where
  "noMatchMessage = ''No se encontr'' @ [CHR 0xC3, CHR 0xB3] @ '' lenguaje similar''"

text \<open>The body of the loop over the languages, on the pair \<open>(maxSim, langCode)\<close>.\<close>

definition language_step ::
  "'f float_ops \<Rightarrow> 'f TrigramProfile \<Rightarrow> 'f \<times> string \<Rightarrow> 'f LanguageProfile \<Rightarrow> 'f \<times> string" where
  "language_step ops textProfile st language =
     (let actSim = getCosineSimilarity ops textProfile (trigramProfile language)
      in if fgt ops actSim (fst st) then (actSim, languageCode language) else st)"

definition language_loop ::
  "'f float_ops \<Rightarrow> 'f TrigramProfile \<Rightarrow> 'f LanguageProfiles \<Rightarrow> 'f \<times> string" where
  "language_loop ops textProfile languages =
     foldl (language_step ops textProfile) (fzero ops, ''Err'') languages"

definition identifyLanguage ::
  "'c wstring_convert \<Rightarrow> 'f float_ops \<Rightarrow> Text \<Rightarrow> 'f LanguageProfiles \<Rightarrow> error + string" where
  "identifyLanguage conv ops text languages =
     (case buildTrigramProfile conv ops text of
        Inl e \<Rightarrow> Inl e
      | Inr textProfile \<Rightarrow>
          (let langCode = snd (language_loop ops textProfile languages)
           in if langCode = ''Err'' then Inr noMatchMessage else Inr langCode))"

subsection \<open>Instances of the parameters\<close>

text \<open>
  Exact arithmetic, for the examples: it is what \<^verbatim>\<open>float\<close> computes wherever every
  value that occurs is an integer below \<open>2 ^ 24\<close> in magnitude, no divisor is zero and no
  square root is taken of a negative number.
\<close>

definition real_ops :: "real float_ops" where
  "real_ops = \<lparr>fzero = 0, fone = 1, fadd = (+), fmul = (*), fdiv = (/), fsqrt = sqrt,
     fgt = (\<lambda>x y. y < x)\<rparr>"

text \<open>
  A converter for 7-bit text, where a code point is a byte: what every UTF-8 converter does
  on such text. It fails on every other byte.
\<close>

definition is_ascii :: "char \<Rightarrow> bool" where
  "is_ascii c = (of_char c < (128 :: nat))"

definition ascii_convert :: "char wstring_convert" where
  "ascii_convert =
     \<lparr>from_bytes = (\<lambda>s. if list_all is_ascii s then Some s else None),
      to_bytes = (\<lambda>w. if list_all is_ascii w then Some w else None)\<rparr>"

text \<open>
  A converter for 7-bit text that does not throw when the line ends with the first byte of
  a multi-byte sequence, but returns the text before it: the \<^verbatim>\<open>from_bytes\<close> of an
  implementation that takes a sequence cut off by the end of the input for an incomplete
  conversion, not for a failed one.
\<close>

definition is_lead :: "char \<Rightarrow> bool" where
  "is_lead c = ((0xC2 :: nat) \<le> of_char c \<and> of_char c < (0xF5 :: nat))"

definition truncating_convert :: "char wstring_convert" where
  "truncating_convert =
     \<lparr>from_bytes = (\<lambda>s.
        if list_all is_ascii s then Some s
        else if s \<noteq> [] \<and> list_all is_ascii (butlast s) \<and> is_lead (last s)
        then Some (butlast s) else None),
      to_bytes = (\<lambda>w. if list_all is_ascii w then Some w else None)\<rparr>"

subsection \<open>What the specification calls by name\<close>

text \<open>
  The definitions of this subsection follow the words of the specification, not the
  source: they are what the functions of the source are compared with.
\<close>

text \<open>
  The windows of a decoded line: for every index \<open>i\<close> from \<open>0\<close> to the length minus 1,
  the window of length 3 that starts at \<open>i\<close>, clamped to the end of the line.
\<close>

definition windows :: "'c list \<Rightarrow> 'c list list" where
  "windows u = map (\<lambda>i. take 3 (drop i u)) [0 ..< length u]"

fun encode_all :: "'c wstring_convert \<Rightarrow> 'c list list \<Rightarrow> string list option" where
  "encode_all conv [] = Some []"
| "encode_all conv (w # ws) =
     (case to_bytes conv w of
        None \<Rightarrow> None
      | Some t \<Rightarrow> map_option ((#) t) (encode_all conv ws))"

text \<open>
  The trigrams of a line, one for each window, in the order of the windows: none when the
  decoded line has fewer than 3 code points. \<open>None\<close> when a conversion fails.
\<close>

definition line_trigrams :: "'c wstring_convert \<Rightarrow> string \<Rightarrow> string list option" where
  "line_trigrams conv line =
     (case decode_line conv line of
        Inl e \<Rightarrow> None
      | Inr u \<Rightarrow> if length u < 3 then Some [] else encode_all conv (windows u))"

fun text_trigrams :: "'c wstring_convert \<Rightarrow> Text \<Rightarrow> string list option" where
  "text_trigrams conv [] = Some []"
| "text_trigrams conv (line # text) =
     (case line_trigrams conv line of
        None \<Rightarrow> None
      | Some ts \<Rightarrow> map_option ((@) ts) (text_trigrams conv text))"

text \<open>
  The value of a key that has been counted \<open>n\<close> times: absent when \<open>n = 0\<close>, else 1
  incremented \<open>n - 1\<close> times.
\<close>

definition counted :: "'f float_ops \<Rightarrow> nat \<Rightarrow> 'f option" where
  "counted ops n =
     (if n = 0 then None
      else Some (((\<lambda>v. fadd ops v (fone ops)) ^^ (n - 1)) (fone ops)))"

text \<open>The sum of all counts of a profile, added up in the order of the keys.\<close>

definition sumOfOriginalCounts :: "'f float_ops \<Rightarrow> 'f TrigramProfile \<Rightarrow> 'f" where
  "sumOfOriginalCounts ops p = foldl (fadd ops) (fzero ops) (map snd p)"

text \<open>The trigrams of the first profile that also exist in the second, in the order of the first.\<close>

definition common_trigrams :: "'f TrigramProfile \<Rightarrow> 'f TrigramProfile \<Rightarrow> string list" where
  "common_trigrams a b = filter (\<lambda>t. t \<in> fst ` set b) (map fst a)"

text \<open>The score of a language against a text profile.\<close>

definition score :: "'f float_ops \<Rightarrow> 'f TrigramProfile \<Rightarrow> 'f LanguageProfile \<Rightarrow> 'f" where
  "score ops textProfile language =
     getCosineSimilarity ops textProfile (trigramProfile language)"

section \<open>Lemmas\<close>

subsection \<open>The profile as a map\<close>

text \<open>
  What \<^verbatim>\<open>find\<close> returns after an increment, after an insertion and after the body of the
  inner loop, and that the three keep the keys strictly sorted.
\<close>

lemma strip_cr_Inr: "\<exists>l. strip_cr line = Inr l"
  by (simp add: strip_cr_def substr_def)

lemma decode_line_not_out_of_range: "decode_line conv line \<noteq> Inl out_of_range"
  using strip_cr_Inr [of line]
  by (auto simp: decode_line_def split: sum.splits option.splits)

lemma map_of_increment:
  "map_of (increment ops k p) k' =
     (if k' = k then map_option (\<lambda>v. fadd ops v (fone ops)) (map_of p k) else map_of p k')"
  by (induction p) auto

lemma keys_increment: "map fst (increment ops k p) = map fst p"
  by (induction p) auto

lemma map_of_insert_pair:
  "k \<notin> fst ` set p \<Longrightarrow>
     map_of (insert_pair (k, v) p) k' = (if k' = k then Some v else map_of p k')"
  by (induction p) (auto simp: insert_pair_def)

lemma keys_insert_pair: "map fst (insert_pair kv p) = insort (fst kv) (map fst p)"
  by (induction p) (auto simp: insert_pair_def)

lemma map_of_count_trigram:
  "map_of (count_trigram ops p k) k' =
     (if k' = k
      then Some (case map_of p k of None \<Rightarrow> fone ops | Some v \<Rightarrow> fadd ops v (fone ops))
      else map_of p k')"
proof (cases "map_of p k")
  case None
  then have "k \<notin> fst ` set p" by (simp add: map_of_eq_None_iff)
  with None show ?thesis by (simp add: count_trigram_def map_of_insert_pair)
next
  case (Some v)
  then show ?thesis by (simp add: count_trigram_def map_of_increment)
qed

lemma is_map_Nil: "is_map []"
  by (simp add: is_map_def)

lemma is_map_count_trigram: "is_map p \<Longrightarrow> is_map (count_trigram ops p k)"
  by (auto simp: count_trigram_def is_map_def keys_increment keys_insert_pair sorted_insort
      distinct_insort map_of_eq_None_iff split: option.splits)

lemma is_map_foldl_count_trigram: "is_map p \<Longrightarrow> is_map (foldl (count_trigram ops) p ts)"
  by (induction ts arbitrary: p) (auto simp: is_map_count_trigram)

lemma funpow_increment:
  "((\<lambda>v. fadd ops v (fone ops)) ^^ n) (fadd ops x (fone ops)) =
     fadd ops (((\<lambda>v. fadd ops v (fone ops)) ^^ n) x) (fone ops)"
  using funpow_swap1 [of "\<lambda>v. fadd ops v (fone ops)" n x] by simp

lemma map_of_foldl_count_trigram:
  "map_of (foldl (count_trigram ops) p ts) k =
     (case map_of p k of
        None \<Rightarrow> counted ops (count_list ts k)
      | Some v \<Rightarrow> Some (((\<lambda>v. fadd ops v (fone ops)) ^^ count_list ts k) v))"
proof (induction ts arbitrary: p)
  case Nil
  then show ?case by (simp add: counted_def split: option.splits)
next
  case (Cons t ts)
  show ?case
  proof (cases "t = k")
    case True
    then show ?thesis
      by (simp add: Cons.IH map_of_count_trigram counted_def funpow_increment split: option.splits)
  next
    case False
    then show ?thesis
      by (simp add: Cons.IH map_of_count_trigram split: option.splits)
  qed
qed

subsection \<open>The loops of buildTrigramProfile\<close>

text \<open>
  The inner loop visits the windows of the line in order, and \<^verbatim>\<open>substr\<close> is never called
  beyond the end of the line, so \<^verbatim>\<open>std::out_of_range\<close> never leaves the function.
\<close>

lemma substr_in_range: "i \<le> length u \<Longrightarrow> substr u i n = Inr (take n (drop i u))"
  by (simp add: substr_def)

lemma trigram_loop_windows:
  "length rest + i = length u \<Longrightarrow>
   encode_all conv (map (\<lambda>j. take 3 (drop j u)) [i ..< length u]) = Some ts \<Longrightarrow>
   trigram_loop conv ops u rest i p = Inr (foldl (count_trigram ops) p ts)"
proof (induction rest arbitrary: i p ts)
  case Nil
  then show ?case by simp
next
  case (Cons letter rest)
  then have i: "i < length u" by simp
  then have upt: "[i ..< length u] = i # [Suc i ..< length u]" by (simp add: upt_conv_Cons)
  from Cons.prems(2) obtain t ts' where
    t: "to_bytes conv (take 3 (drop i u)) = Some t" and
    ts': "encode_all conv (map (\<lambda>j. take 3 (drop j u)) [Suc i ..< length u]) = Some ts'" and
    ts: "ts = t # ts'"
    unfolding upt by (auto split: option.splits)
  from Cons.prems(1) have "length rest + Suc i = length u" by simp
  from Cons.IH [OF this ts'] i t ts show ?case
    by (simp add: substr_in_range)
qed

lemma trigram_loop_not_out_of_range:
  "length rest + i = length u \<Longrightarrow> trigram_loop conv ops u rest i p \<noteq> Inl out_of_range"
proof (induction rest arbitrary: i p)
  case Nil
  then show ?case by simp
next
  case (Cons letter rest)
  then have i: "i \<le> length u" by simp
  from Cons.prems have "length rest + Suc i = length u" by simp
  from Cons.IH [OF this] i show ?case
    by (simp add: substr_in_range split: option.splits)
qed

lemma line_step_not_out_of_range: "line_step conv ops p line \<noteq> Inl out_of_range"
  using decode_line_not_out_of_range [of conv line]
    trigram_loop_not_out_of_range [of _ 0 _ conv ops p]
  by (auto simp: line_step_def split: sum.splits)

lemma line_loop_not_out_of_range: "line_loop conv ops p lines \<noteq> Inl out_of_range"
  using line_step_not_out_of_range [of conv ops]
  by (induction lines arbitrary: p) (auto split: sum.splits)

lemma line_step_trigrams:
  "line_trigrams conv line = Some ts \<Longrightarrow>
   line_step conv ops p line = Inr (foldl (count_trigram ops) p ts)"
  using trigram_loop_windows [of _ 0 _ conv ts ops p]
  by (auto simp: line_step_def line_trigrams_def windows_def split: sum.splits if_splits)

lemma line_loop_trigrams:
  "text_trigrams conv lines = Some ts \<Longrightarrow>
   line_loop conv ops p lines = Inr (foldl (count_trigram ops) p ts)"
proof (induction lines arbitrary: p ts)
  case Nil
  then show ?case by simp
next
  case (Cons line lines)
  then show ?case
    by (auto simp: line_step_trigrams split: option.splits)
qed

text \<open>
  When a conversion fails, the exception of the converter is what ends the loops: the
  function returns a profile exactly when every conversion it asks for succeeds.
\<close>

lemma trigram_loop_throws:
  "length rest + i = length u \<Longrightarrow>
   encode_all conv (map (\<lambda>j. take 3 (drop j u)) [i ..< length u]) = None \<Longrightarrow>
   trigram_loop conv ops u rest i p = Inl range_error"
proof (induction rest arbitrary: i p)
  case Nil
  then show ?case by simp
next
  case (Cons letter rest)
  then have i: "i < length u" by simp
  then have upt: "[i ..< length u] = i # [Suc i ..< length u]" by (simp add: upt_conv_Cons)
  from Cons.prems(1) have len: "length rest + Suc i = length u" by simp
  show ?case
  proof (cases "to_bytes conv (take 3 (drop i u))")
    case None
    with i show ?thesis by (simp add: substr_in_range)
  next
    case (Some t)
    with Cons.prems(2) have
      "encode_all conv (map (\<lambda>j. take 3 (drop j u)) [Suc i ..< length u]) = None"
      unfolding upt by simp
    from Cons.IH [OF len this] i Some show ?thesis by (simp add: substr_in_range)
  qed
qed

lemma line_step_throws:
  assumes "line_trigrams conv line = None"
  shows "line_step conv ops p line = Inl range_error"
proof (cases "decode_line conv line")
  case (Inl e)
  with decode_line_not_out_of_range [of conv line] have "e = range_error" by (cases e) auto
  with Inl show ?thesis by (simp add: line_step_def)
next
  case (Inr u)
  with assms have "\<not> length u < 3" and
    "encode_all conv (map (\<lambda>j. take 3 (drop j u)) [0 ..< length u]) = None"
    by (auto simp: line_trigrams_def windows_def split: if_splits)
  with Inr trigram_loop_throws [of u 0 u conv ops p] show ?thesis
    by (simp add: line_step_def)
qed

lemma line_loop_throws:
  "text_trigrams conv lines = None \<Longrightarrow> line_loop conv ops p lines = Inl range_error"
proof (induction lines arbitrary: p)
  case Nil
  then show ?case by simp
next
  case (Cons line lines)
  show ?case
  proof (cases "line_trigrams conv line")
    case None
    then show ?thesis by (simp add: line_step_throws)
  next
    case (Some ts)
    with Cons.prems have "text_trigrams conv lines = None" by simp
    with Some Cons.IH show ?thesis by (simp add: line_step_trigrams)
  qed
qed

lemma text_trigrams_decode_error:
  "\<exists>line \<in> set lines. decode_line conv line = Inl e \<Longrightarrow> text_trigrams conv lines = None"
  by (induction lines) (auto simp: line_trigrams_def split: option.splits)

lemma length_windows_tail:
  "3 \<le> length u \<Longrightarrow> map length (windows u) = replicate (length u - 2) 3 @ [2, 1]"
proof -
  assume u: "3 \<le> length u"
  let ?n = "length u"
  have split: "[0 ..< ?n] = [0 ..< ?n - 2] @ [?n - 2, ?n - 1]"
  proof -
    have "?n - 2 + 2 = ?n" using u by simp
    then have "[0 ..< ?n] = [0 ..< ?n - 2] @ [?n - 2 ..< ?n]"
      using upt_add_eq_append [of 0 "?n - 2" 2] by simp
    moreover have "[?n - 2 ..< ?n] = [?n - 2, ?n - 1]"
      using u by (simp add: upt_conv_Cons Suc_diff_Suc numeral_2_eq_2)
    ultimately show ?thesis by simp
  qed
  have "map (\<lambda>i. length (take 3 (drop i u))) [0 ..< ?n - 2] = replicate (?n - 2) 3"
    by (rule nth_equalityI) (use u in \<open>auto simp: min_def\<close>)
  moreover have "map (\<lambda>i. length (take 3 (drop i u))) [?n - 2, ?n - 1] = [2, 1]"
    using u by (auto simp: min_def)
  ultimately show ?thesis
    unfolding windows_def map_map comp_def by (subst split) (simp only: map_append)
qed

subsection \<open>The loops of normalizeTrigramProfile and getCosineSimilarity\<close>

lemma normalizeTrigramProfile_eq:
  "normalizeTrigramProfile ops p =
     Inr (map (\<lambda>(k, c). (k, fdiv ops c (fsqrt ops (sumOfOriginalCounts ops p)))) p)"
  by (simp add: normalizeTrigramProfile_def sumOfOriginalCounts_def foldl_map case_prod_beta)

lemma cosine_fold:
  "\<forall>(k, v) \<in> set a. g k = v \<Longrightarrow>
   foldl (\<lambda>simCos p1.
            case map_of b (fst p1) of
              Some w \<Rightarrow> fadd ops simCos (fmul ops (snd p1) w)
            | None \<Rightarrow> simCos) z a =
   foldl (fadd ops) z
     (map (\<lambda>t. fmul ops (g t) (the (map_of b t))) (filter (\<lambda>t. t \<in> fst ` set b) (map fst a)))"
proof (induction a arbitrary: z)
  case Nil
  then show ?case by simp
next
  case (Cons kv a)
  obtain k v where kv: "kv = (k, v)" by (cases kv)
  from Cons.prems kv have g: "g k = v" and rest: "\<forall>(k, v) \<in> set a. g k = v" by auto
  show ?case
  proof (cases "map_of b k")
    case None
    then have "k \<notin> fst ` set b" by (simp add: map_of_eq_None_iff)
    with None kv Cons.IH [OF rest] show ?thesis by simp
  next
    case (Some w)
    then have "k \<in> fst ` set b" by (metis map_of_eq_None_iff option.distinct(1))
    with Some kv g Cons.IH [OF rest] show ?thesis by simp
  qed
qed

lemma getCosineSimilarity_common:
  assumes "is_map a"
  shows "getCosineSimilarity ops a b =
     foldl (fadd ops) (fzero ops)
       (map (\<lambda>t. fmul ops (the (map_of a t)) (the (map_of b t))) (common_trigrams a b))"
proof -
  from assms have "\<forall>(k, v) \<in> set a. the (map_of a k) = v"
    by (auto simp: is_map_def)
  from cosine_fold [OF this] show ?thesis
    by (simp add: getCosineSimilarity_def common_trigrams_def)
qed

lemma common_trigrams_commute:
  assumes "is_map a" "is_map b"
  shows "common_trigrams a b = common_trigrams b a"
proof (rule sorted_distinct_set_unique)
  show "sorted (common_trigrams a b)" "distinct (common_trigrams a b)"
    using assms(1) by (auto simp: common_trigrams_def is_map_def sorted_wrt_filter)
  show "sorted (common_trigrams b a)" "distinct (common_trigrams b a)"
    using assms(2) by (auto simp: common_trigrams_def is_map_def sorted_wrt_filter)
  show "set (common_trigrams a b) = set (common_trigrams b a)"
    by (auto simp: common_trigrams_def)
qed

text \<open>
  In exact arithmetic the order of the additions is of no account: the result is the sum
  over the set of the trigrams that the two profiles have in common.
\<close>

lemma foldl_real_sum: "foldl (+) z (xs :: real list) = z + sum_list xs"
  by (induction xs arbitrary: z) auto

lemma getCosineSimilarity_real:
  assumes "is_map a"
  shows "getCosineSimilarity real_ops a b =
           (\<Sum>t \<in> fst ` set a \<inter> fst ` set b. the (map_of a t) * the (map_of b t))"
proof -
  have d: "distinct (common_trigrams a b)"
    using assms by (simp add: common_trigrams_def is_map_def)
  have s: "set (common_trigrams a b) = fst ` set a \<inter> fst ` set b"
    by (auto simp: common_trigrams_def)
  show ?thesis
    using assms sum_list_distinct_conv_sum_set [OF d, of "\<lambda>t. the (map_of a t) * the (map_of b t)"]
    by (simp add: getCosineSimilarity_common real_ops_def foldl_real_sum s)
qed

subsection \<open>The loop of identifyLanguage\<close>

text \<open>
  The pair \<open>(maxSim, langCode)\<close> is left alone by a language whose score is not greater
  than \<open>maxSim\<close>, and \<open>maxSim\<close> is always the initial value or the score of a language
  already visited.
\<close>

lemma language_loop_keep:
  "\<forall>l \<in> set ls. \<not> fgt ops (score ops tp l) (fst st) \<Longrightarrow>
   foldl (language_step ops tp) st ls = st"
  by (induction ls) (auto simp: language_step_def score_def)

lemma language_loop_fst:
  "fst (foldl (language_step ops tp) st ls) \<in> insert (fst st) (score ops tp ` set ls)"
proof (induction ls arbitrary: st)
  case Nil
  then show ?case by simp
next
  case (Cons l ls)
  from Cons.IH [of "language_step ops tp st l"] show ?case
    by (auto simp: language_step_def score_def Let_def split: if_splits)
qed

lemma language_loop_pick:
  assumes "fgt ops (score ops tp l) (fst st)"
    and "\<forall>x \<in> set pre. fgt ops (score ops tp l) (score ops tp x)"
    and "\<forall>x \<in> set post. \<not> fgt ops (score ops tp x) (score ops tp l)"
  shows "foldl (language_step ops tp) st (pre @ l # post) = (score ops tp l, languageCode l)"
proof -
  let ?st = "foldl (language_step ops tp) st pre"
  from language_loop_fst [of ops tp st pre] assms(1,2)
  have "fgt ops (score ops tp l) (fst ?st)" by auto
  then have "language_step ops tp ?st l = (score ops tp l, languageCode l)"
    by (simp add: language_step_def score_def)
  with language_loop_keep [of post ops tp "(score ops tp l, languageCode l)"] assms(3)
  show ?thesis by simp
qed

lemma language_loop_index:
  assumes "k < length languages"
    and "fgt ops (score ops tp (languages ! k)) (fzero ops)"
    and "\<forall>j<k. fgt ops (score ops tp (languages ! k)) (score ops tp (languages ! j))"
    and "\<forall>j<length languages. k < j \<longrightarrow>
           \<not> fgt ops (score ops tp (languages ! j)) (score ops tp (languages ! k))"
  shows "language_loop ops tp languages =
           (score ops tp (languages ! k), languageCode (languages ! k))"
proof -
  let ?l = "languages ! k"
  have split: "languages = take k languages @ ?l # drop (Suc k) languages"
    using assms(1) by (rule id_take_nth_drop)
  have pre: "\<forall>x \<in> set (take k languages). fgt ops (score ops tp ?l) (score ops tp x)"
  proof
    fix x assume "x \<in> set (take k languages)"
    then obtain j where "j < length (take k languages)" "take k languages ! j = x"
      by (auto simp: in_set_conv_nth)
    with assms(1,3) show "fgt ops (score ops tp ?l) (score ops tp x)" by auto
  qed
  have post: "\<forall>x \<in> set (drop (Suc k) languages). \<not> fgt ops (score ops tp x) (score ops tp ?l)"
  proof
    fix x assume "x \<in> set (drop (Suc k) languages)"
    then obtain j where j: "j < length (drop (Suc k) languages)"
      "drop (Suc k) languages ! j = x"
      by (auto simp: in_set_conv_nth)
    then have "Suc k + j < length languages" "languages ! (Suc k + j) = x" by auto
    with assms(4) show "\<not> fgt ops (score ops tp x) (score ops tp ?l)" by auto
  qed
  have "foldl (language_step ops tp) (fzero ops, ''Err'')
          (take k languages @ ?l # drop (Suc k) languages) =
        (score ops tp ?l, languageCode ?l)"
    using assms(2) pre post by (intro language_loop_pick) simp_all
  with split show ?thesis by (simp add: language_loop_def)
qed

subsection \<open>One text, evaluated\<close>

lemma build_abc:
  "buildTrigramProfile ascii_convert real_ops [''abc''] =
     Inr [(''abc'', 1), (''bc'', 1), (''c'', 1)]"
  by (simp add: buildTrigramProfile_def line_step_def decode_line_def strip_cr_def substr_def
      ascii_convert_def is_ascii_def count_trigram_def insert_pair_def real_ops_def)

lemma identify_abc:
  "identifyLanguage ascii_convert real_ops [''abc''] languages =
     (let langCode = snd (language_loop real_ops [(''abc'', 1), (''bc'', 1), (''c'', 1)] languages)
      in if langCode = ''Err'' then Inr noMatchMessage else Inr langCode)"
  by (simp add: identifyLanguage_def build_abc)

section \<open>The claims\<close>

subsection \<open>normalizeTrigramProfile\<close>

text \<open>
  Claim C1, as the code has it. For the empty profile \<^verbatim>\<open>normalizeTrigramProfile\<close>
  returns normally and leaves the profile empty: the second loop runs over no entry, so no
  division is performed and the profile holds no value at all, finite or not. No error is
  reported, whatever the arithmetic of \<^verbatim>\<open>float\<close> does.
\<close>

theorem normalizeTrigramProfile_empty: "normalizeTrigramProfile ops [] = Inr []"
  by (simp add: normalizeTrigramProfile_def)

text \<open>
  Claim C1 as it is written says that the empty profile is reported as an error. On the empty
  profile the function returns the empty profile and its result is not an error.
\<close>

theorem normalizeTrigramProfile_empty_counterexample:
  "normalizeTrigramProfile real_ops [] = Inr [] \<and>
   \<not> isl (normalizeTrigramProfile real_ops [])"
  by (simp add: normalizeTrigramProfile_def)

text \<open>
  Claim C4. After \<^verbatim>\<open>normalizeTrigramProfile\<close> the profile has the keys it had, and the
  value of every key is its original count divided by the square root of the sum of all
  original counts: of the counts, not of their squares. The sum, the square root and the
  division are those of \<^verbatim>\<open>float\<close>, and the sum is taken in the order of the keys.
\<close>

theorem normalizeTrigramProfile_values:
  "\<exists>profile'. normalizeTrigramProfile ops profile = Inr profile' \<and>
     map fst profile' = map fst profile \<and>
     (\<forall>k. map_of profile' k =
        map_option (\<lambda>originalCount.
            fdiv ops originalCount (fsqrt ops (sumOfOriginalCounts ops profile)))
          (map_of profile k))"
  by (simp add: normalizeTrigramProfile_eq map_of_map case_prod_beta comp_def)

text \<open>
  For the counts 2 and 2 the values are \<open>2 / sqrt 4 = 1\<close>, and not the \<open>2 / sqrt 8\<close> of
  a normalisation by the sum of the squares.
\<close>

theorem normalizeTrigramProfile_values_witness:
  "\<exists>profile'. normalizeTrigramProfile real_ops [(''ab'', 2), (''abc'', 2)] = Inr profile' \<and>
     map fst profile' = [''ab'', ''abc''] \<and>
     map_of profile' ''ab'' = Some (2 / sqrt (2 + 2)) \<and> map_of profile' ''ab'' = Some 1 \<and>
     map_of profile' ''ab'' \<noteq> Some (2 / sqrt (2 * 2 + 2 * 2))"
proof -
  from normalizeTrigramProfile_values [of real_ops "[(''ab'', 2), (''abc'', 2)]"]
  obtain profile' where
    p: "normalizeTrigramProfile real_ops [(''ab'', 2), (''abc'', 2)] = Inr profile'"
      "map fst profile' = map fst [(''ab'', 2 :: real), (''abc'', 2)]"
      "\<forall>k. map_of profile' k =
         map_option (\<lambda>originalCount. fdiv real_ops originalCount
             (fsqrt real_ops (sumOfOriginalCounts real_ops [(''ab'', 2), (''abc'', 2)])))
           (map_of [(''ab'', 2), (''abc'', 2)] k)"
    by blast
  have eight: "sqrt 8 \<noteq> 2"
  proof
    assume "sqrt 8 = 2"
    then have "sqrt 8 ^ 2 = (2 :: real) ^ 2" by simp
    then show False by simp
  qed
  from p(3) have v: "map_of profile' ''ab'' = Some (2 / sqrt (2 + 2))"
    by (simp add: sumOfOriginalCounts_def real_ops_def)
  then have "map_of profile' ''ab'' = Some 1" by simp
  moreover from this have "map_of profile' ''ab'' \<noteq> Some (2 / sqrt (2 * 2 + 2 * 2))"
    using eight by (simp add: field_simps)
  ultimately show ?thesis using p(1,2) v by auto
qed

subsection \<open>buildTrigramProfile\<close>

text \<open>
  Claim C5. When every conversion of the text succeeds, \<^verbatim>\<open>buildTrigramProfile\<close> returns
  one profile for all lines, in which a key is present exactly when it is the trigram of one
  of the windows of a line of at least 3 code points, and its value is 1 incremented once
  for every further occurrence of that trigram among the windows of all lines. The windows
  of a line are the windows of length 3 at every index from 0 to the length minus 1, clamped
  to the end of the line: the last two have 2 and 1 code points.
\<close>

theorem buildTrigramProfile_windows:
  assumes "text_trigrams conv text = Some ts"
  shows "(\<exists>profile. buildTrigramProfile conv ops text = Inr profile \<and> is_map profile \<and>
            (\<forall>k. map_of profile k = counted ops (count_list ts k))) \<and>
         (\<forall>u :: 'c list. 3 \<le> length u \<longrightarrow>
            map length (windows u) = replicate (length u - 2) 3 @ [2, 1])"
  using assms
  by (simp add: buildTrigramProfile_def line_loop_trigrams map_of_foldl_count_trigram
      is_map_foldl_count_trigram is_map_Nil length_windows_tail)

theorem buildTrigramProfile_windows_witness:
  "text_trigrams ascii_convert [''abcab'', ''ab'', ''abc'' @ [CHR 0x0D]] =
     Some [''abc'', ''bca'', ''cab'', ''ab'', ''b'', ''abc'', ''bc'', ''c''] \<and>
   (\<exists>profile.
      buildTrigramProfile ascii_convert real_ops [''abcab'', ''ab'', ''abc'' @ [CHR 0x0D]] =
        Inr profile \<and>
      is_map profile \<and> map_of profile ''abc'' = Some 2 \<and> map_of profile ''b'' = Some 1 \<and>
      map_of profile ''abd'' = None) \<and>
   map length (windows ''abcab'') = [3, 3, 3, 2, 1]"
proof -
  have h: "text_trigrams ascii_convert [''abcab'', ''ab'', ''abc'' @ [CHR 0x0D]] =
     Some [''abc'', ''bca'', ''cab'', ''ab'', ''b'', ''abc'', ''bc'', ''c'']"
    by (simp add: line_trigrams_def decode_line_def strip_cr_def substr_def ascii_convert_def
        is_ascii_def windows_def)
  note t = buildTrigramProfile_windows [OF h, of real_ops]
  from t [THEN conjunct1] obtain profile where
    p: "buildTrigramProfile ascii_convert real_ops [''abcab'', ''ab'', ''abc'' @ [CHR 0x0D]] =
        Inr profile" "is_map profile"
      "\<forall>k. map_of profile k =
         counted real_ops
           (count_list [''abc'', ''bca'', ''cab'', ''ab'', ''b'', ''abc'', ''bc'', ''c''] k)"
    by blast
  from t [THEN conjunct2, THEN spec, of "''abcab''"]
  have w: "map length (windows ''abcab'') = replicate (length ''abcab'' - 2) 3 @ [2, 1]"
    by simp
  from p(3) have "map_of profile ''abc'' = Some 2" "map_of profile ''b'' = Some 1"
    "map_of profile ''abd'' = None"
    by (simp_all add: counted_def real_ops_def)
  moreover from w have "map length (windows ''abcab'') = [3, 3, 3, 2, 1]"
    by (simp add: numeral_3_eq_3)
  ultimately show ?thesis using h p(1,2) by blast
qed

text \<open>
  Claim C7, as the code has it. \<^verbatim>\<open>buildTrigramProfile\<close> checks nothing itself and catches
  nothing. When a conversion that it asks of the converter fails, and so when a line cannot
  be converted, it ends with the \<^verbatim>\<open>std::range_error\<close> of the converter and returns no
  profile, and the exception leaves \<^verbatim>\<open>identifyLanguage\<close> as well. When every conversion
  succeeds, whatever the bytes of the text are, it returns a profile.
\<close>

theorem buildTrigramProfile_range_error:
  "((\<exists>line \<in> set text. decode_line conv line = Inl range_error) \<longrightarrow>
      text_trigrams conv text = None) \<and>
   (text_trigrams conv text = None \<longrightarrow>
      buildTrigramProfile conv ops text = Inl range_error \<and>
      identifyLanguage conv ops text languages = Inl range_error) \<and>
   (text_trigrams conv text \<noteq> None \<longrightarrow>
      (\<exists>profile. buildTrigramProfile conv ops text = Inr profile))"
proof (intro conjI impI)
  assume "\<exists>line \<in> set text. decode_line conv line = Inl range_error"
  then show "text_trigrams conv text = None" by (rule text_trigrams_decode_error)
next
  assume "text_trigrams conv text = None"
  then show "buildTrigramProfile conv ops text = Inl range_error"
    by (simp add: buildTrigramProfile_def line_loop_throws)
  then show "identifyLanguage conv ops text languages = Inl range_error"
    by (simp add: identifyLanguage_def)
next
  assume "text_trigrams conv text \<noteq> None"
  then obtain ts where "text_trigrams conv text = Some ts" by blast
  then show "\<exists>profile. buildTrigramProfile conv ops text = Inr profile"
    by (simp add: buildTrigramProfile_def line_loop_trigrams)
qed

theorem buildTrigramProfile_range_error_witness:
  "decode_line ascii_convert [CHR 0xFF, CHR ''a''] = Inl range_error \<and>
   text_trigrams ascii_convert [''abc'', [CHR 0xFF, CHR ''a'']] = None \<and>
   buildTrigramProfile ascii_convert real_ops [''abc'', [CHR 0xFF, CHR ''a'']] =
     Inl range_error \<and>
   identifyLanguage ascii_convert real_ops [''abc'', [CHR 0xFF, CHR ''a'']]
     [\<lparr>languageCode = ''eng'', trigramProfile = [(''abc'', 1)]\<rparr>] = Inl range_error \<and>
   text_trigrams truncating_convert [''abc'' @ [CHR 0xC3]] = Some [''abc'', ''bc'', ''c''] \<and>
   (\<exists>profile. buildTrigramProfile truncating_convert real_ops [''abc'' @ [CHR 0xC3]] =
      Inr profile)"
proof -
  have d: "decode_line ascii_convert [CHR 0xFF, CHR ''a''] = Inl range_error"
    by (simp add: decode_line_def strip_cr_def ascii_convert_def is_ascii_def)
  then have h: "\<exists>line \<in> set [''abc'', [CHR 0xFF, CHR ''a'']].
      decode_line ascii_convert line = Inl range_error"
    by simp
  note t = buildTrigramProfile_range_error [of "[''abc'', [CHR 0xFF, CHR ''a'']]"
      ascii_convert real_ops "[\<lparr>languageCode = ''eng'', trigramProfile = [(''abc'', 1)]\<rparr>]"]
  from t h have n: "text_trigrams ascii_convert [''abc'', [CHR 0xFF, CHR ''a'']] = None"
    by blast
  with t have r: "buildTrigramProfile ascii_convert real_ops [''abc'', [CHR 0xFF, CHR ''a'']] =
     Inl range_error"
    "identifyLanguage ascii_convert real_ops [''abc'', [CHR 0xFF, CHR ''a'']]
     [\<lparr>languageCode = ''eng'', trigramProfile = [(''abc'', 1)]\<rparr>] = Inl range_error"
    by blast+
  have s: "text_trigrams truncating_convert [''abc'' @ [CHR 0xC3]] = Some [''abc'', ''bc'', ''c'']"
    by (simp add: line_trigrams_def decode_line_def strip_cr_def truncating_convert_def
        is_ascii_def is_lead_def windows_def)
  then have "text_trigrams truncating_convert [''abc'' @ [CHR 0xC3]] \<noteq> None" by simp
  with buildTrigramProfile_range_error [of "[''abc'' @ [CHR 0xC3]]" truncating_convert real_ops "[]"]
  have "\<exists>profile. buildTrigramProfile truncating_convert real_ops [''abc'' @ [CHR 0xC3]] =
      Inr profile"
    by blast
  with d n r s show ?thesis by blast
qed

text \<open>
  Claim C7 as it is written says that every text with bytes that are not valid Unicode is
  rejected with an error of its own and that the process never ends by it. A line that ends
  in the middle of a multi-byte sequence, with a converter that drops what is incomplete,
  gives a profile; and what a converter that throws reports is its own exception, which
  nothing in the source catches, neither in \<^verbatim>\<open>buildTrigramProfile\<close> nor in
  \<^verbatim>\<open>identifyLanguage\<close>.
\<close>

theorem buildTrigramProfile_range_error_counterexample:
  "buildTrigramProfile truncating_convert real_ops [''abc'' @ [CHR 0xC3]] =
     Inr [(''abc'', 1), (''bc'', 1), (''c'', 1)] \<and>
   buildTrigramProfile ascii_convert real_ops [[CHR 0xFF]] = Inl range_error \<and>
   identifyLanguage ascii_convert real_ops [[CHR 0xFF]]
     [\<lparr>languageCode = ''eng'', trigramProfile = [(''abc'', 1)]\<rparr>] = Inl range_error"
  by (simp add: identifyLanguage_def buildTrigramProfile_def line_step_def decode_line_def
      strip_cr_def ascii_convert_def truncating_convert_def is_ascii_def is_lead_def
      substr_def count_trigram_def insert_pair_def real_ops_def)

text \<open>
  Claim C8. When every line of the text decodes to fewer than 3 code points, every line is
  skipped and \<^verbatim>\<open>buildTrigramProfile\<close> returns the empty profile.
\<close>

theorem buildTrigramProfile_short_lines:
  assumes "\<forall>line \<in> set text. \<exists>u. decode_line conv line = Inr u \<and> length u < 3"
  shows "buildTrigramProfile conv ops text = Inr []"
proof -
  have "line_loop conv ops p text = Inr p" for p
    using assms by (induction "text" arbitrary: p) (auto simp: line_step_def)
  then show ?thesis by (simp add: buildTrigramProfile_def)
qed

theorem buildTrigramProfile_short_lines_witness:
  "map (decode_line ascii_convert) [''ab'', [], [CHR ''a'', CHR ''b'', CHR 0x0D]] =
     [Inr ''ab'', Inr [], Inr ''ab''] \<and>
   buildTrigramProfile ascii_convert real_ops [''ab'', [], [CHR ''a'', CHR ''b'', CHR 0x0D]] =
     Inr []"
proof -
  have h: "\<forall>line \<in> set [''ab'', [], [CHR ''a'', CHR ''b'', CHR 0x0D]].
      \<exists>u. decode_line ascii_convert line = Inr u \<and> length u < 3"
    by (simp add: decode_line_def strip_cr_def substr_def ascii_convert_def is_ascii_def)
  have d: "map (decode_line ascii_convert) [''ab'', [], [CHR ''a'', CHR ''b'', CHR 0x0D]] =
     [Inr ''ab'', Inr [], Inr ''ab'']"
    by (simp add: decode_line_def strip_cr_def substr_def ascii_convert_def is_ascii_def)
  from d buildTrigramProfile_short_lines [OF h, of real_ops] show ?thesis by simp
qed

subsection \<open>getCosineSimilarity\<close>

text \<open>
  Claim C6. \<^verbatim>\<open>getCosineSimilarity\<close> returns the sum, started at 0 and added up in the
  order of the keys of the text profile, of the products of the two values of every trigram
  of the text profile that also exists in the language profile. A trigram that is in one
  profile only is not among the terms.
\<close>

theorem getCosineSimilarity_sum:
  assumes "is_map textProfile"
  shows "getCosineSimilarity ops textProfile languageProfile =
           foldl (fadd ops) (fzero ops)
             (map (\<lambda>t. fmul ops (the (map_of textProfile t)) (the (map_of languageProfile t)))
                (common_trigrams textProfile languageProfile))"
proof -
  show ?thesis using assms by (rule getCosineSimilarity_common)
qed

theorem getCosineSimilarity_sum_witness:
  "is_map [(''abc'', 2 :: real), (''bcd'', 3)] \<and>
   common_trigrams [(''abc'', 2 :: real), (''bcd'', 3)] [(''abc'', 4 :: real), (''xyz'', 5)] = [''abc''] \<and>
   getCosineSimilarity real_ops [(''abc'', 2), (''bcd'', 3)] [(''abc'', 4), (''xyz'', 5)] = 8"
proof -
  have h: "is_map [(''abc'', 2 :: real), (''bcd'', 3)]"
    by (simp add: is_map_def)
  from h getCosineSimilarity_sum [OF h, of real_ops "[(''abc'', 4), (''xyz'', 5)]"]
  show ?thesis by (simp add: common_trigrams_def real_ops_def)
qed

text \<open>
  Claim C9. \<^verbatim>\<open>getCosineSimilarity\<close> gives the same result when its two profiles are
  exchanged. The multiplication of \<^verbatim>\<open>float\<close> is commutative; nothing is asked of the
  addition, because the two calls add the same products in the same order, that of the
  common keys.
\<close>

theorem getCosineSimilarity_commute:
  assumes "\<forall>x y. fmul ops x y = fmul ops y x" and "is_map a" and "is_map b"
  shows "getCosineSimilarity ops a b = getCosineSimilarity ops b a"
proof -
  have "(\<lambda>t. fmul ops (the (map_of a t)) (the (map_of b t))) =
        (\<lambda>t. fmul ops (the (map_of b t)) (the (map_of a t)))"
    using assms(1) by simp
  then show ?thesis
    using assms(2,3)
    by (simp add: getCosineSimilarity_common common_trigrams_commute [of a b])
qed

theorem getCosineSimilarity_commute_witness:
  "(\<forall>x y. fmul real_ops x y = fmul real_ops y x) \<and>
   is_map [(''abc'', 2 :: real), (''bcd'', 3)] \<and> is_map [(''abc'', 4 :: real), (''xyz'', 5)] \<and>
   getCosineSimilarity real_ops [(''abc'', 2), (''bcd'', 3)] [(''abc'', 4), (''xyz'', 5)] =
   getCosineSimilarity real_ops [(''abc'', 4), (''xyz'', 5)] [(''abc'', 2), (''bcd'', 3)]"
proof -
  have c: "\<forall>x y. fmul real_ops x y = fmul real_ops y x"
    by (simp add: real_ops_def)
  have a: "is_map [(''abc'', 2 :: real), (''bcd'', 3)]"
    and b: "is_map [(''abc'', 4 :: real), (''xyz'', 5)]"
    by (simp_all add: is_map_def)
  from c a b getCosineSimilarity_commute [OF c a b] show ?thesis by blast
qed

subsection \<open>identifyLanguage\<close>

text \<open>
  Claim C2, as the code has it. When the text can be converted and no language has a score
  greater than 0, and so also when there is no language, \<^verbatim>\<open>identifyLanguage\<close> returns the
  fixed message \<open>noMatchMessage\<close>. The message is a string, as a language code is.
\<close>

theorem identifyLanguage_no_match:
  assumes "buildTrigramProfile conv ops text = Inr textProfile"
    and "\<forall>language \<in> set languages. \<not> fgt ops (score ops textProfile language) (fzero ops)"
  shows "identifyLanguage conv ops text languages = Inr noMatchMessage"
  using assms language_loop_keep [of languages ops textProfile "(fzero ops, ''Err'')"]
  by (simp add: identifyLanguage_def language_loop_def)

theorem identifyLanguage_no_match_witness:
  "buildTrigramProfile ascii_convert real_ops [''abc''] =
     Inr [(''abc'', 1), (''bc'', 1), (''c'', 1)] \<and>
   \<not> fgt real_ops
       (score real_ops [(''abc'', 1), (''bc'', 1), (''c'', 1)]
          \<lparr>languageCode = ''eng'', trigramProfile = [(''xyz'', 1)]\<rparr>)
       (fzero real_ops) \<and>
   identifyLanguage ascii_convert real_ops [''abc'']
     [\<lparr>languageCode = ''eng'', trigramProfile = [(''xyz'', 1)]\<rparr>] = Inr noMatchMessage \<and>
   identifyLanguage ascii_convert real_ops [''abc''] [] = Inr noMatchMessage"
proof -
  have h: "\<forall>language \<in> set [\<lparr>languageCode = ''eng'', trigramProfile = [(''xyz'', 1)]\<rparr>].
      \<not> fgt real_ops (score real_ops [(''abc'', 1), (''bc'', 1), (''c'', 1)] language)
          (fzero real_ops)"
    by (simp add: score_def getCosineSimilarity_def real_ops_def)
  have e: "\<forall>language \<in> set ([] :: real LanguageProfiles).
      \<not> fgt real_ops (score real_ops [(''abc'', 1), (''bc'', 1), (''c'', 1)] language)
          (fzero real_ops)"
    by simp
  from h have "\<not> fgt real_ops
       (score real_ops [(''abc'', 1), (''bc'', 1), (''c'', 1)]
          \<lparr>languageCode = ''eng'', trigramProfile = [(''xyz'', 1)]\<rparr>)
       (fzero real_ops)"
    by simp
  with build_abc identifyLanguage_no_match [OF build_abc h]
    identifyLanguage_no_match [OF build_abc e]
  show ?thesis by blast
qed

text \<open>
  Claim C2 as it is written says that the result without a match is never the result of a
  match, and that it is the result for every text when no language has a score greater than
  0. A language whose code is the message and whose score is 1 is returned, and the result
  is the result for no language at all; and for a text that cannot be converted and no
  language at all the result is the exception of the converter.
\<close>

theorem identifyLanguage_no_match_counterexample:
  "buildTrigramProfile ascii_convert real_ops [''abc''] =
     Inr [(''abc'', 1), (''bc'', 1), (''c'', 1)] \<and>
   score real_ops [(''abc'', 1), (''bc'', 1), (''c'', 1)]
     \<lparr>languageCode = noMatchMessage, trigramProfile = [(''abc'', 1)]\<rparr> = 1 \<and>
   fgt real_ops 1 (fzero real_ops) \<and>
   identifyLanguage ascii_convert real_ops [''abc'']
     [\<lparr>languageCode = noMatchMessage, trigramProfile = [(''abc'', 1)]\<rparr>] =
   identifyLanguage ascii_convert real_ops [''abc''] [] \<and>
   identifyLanguage ascii_convert real_ops [[CHR 0xFF]] [] = Inl range_error"
proof -
  have "identifyLanguage ascii_convert real_ops [[CHR 0xFF]] ([] :: real LanguageProfiles) =
      Inl range_error"
    by (simp add: identifyLanguage_def buildTrigramProfile_def line_step_def decode_line_def
        strip_cr_def ascii_convert_def is_ascii_def)
  then show ?thesis
    by (simp add: build_abc identify_abc)
      (simp add: language_loop_def language_step_def score_def
        getCosineSimilarity_def real_ops_def noMatchMessage_def)
qed

text \<open>
  Claim C3, as the code has it. When the text can be converted and the language at position
  \<open>k\<close> has a score that is greater than 0 and greater than the score of every earlier
  language, and no later language has a score greater than it, so that the language is the
  earliest of those with the top score, \<^verbatim>\<open>identifyLanguage\<close> returns its code, provided
  the code is not \<open>''Err''\<close>.
\<close>

theorem identifyLanguage_earliest_top:
  assumes "buildTrigramProfile conv ops text = Inr textProfile"
    and "k < length languages"
    and "fgt ops (score ops textProfile (languages ! k)) (fzero ops)"
    and "\<forall>j<k. fgt ops (score ops textProfile (languages ! k))
                  (score ops textProfile (languages ! j))"
    and "\<forall>j<length languages. k < j \<longrightarrow>
           \<not> fgt ops (score ops textProfile (languages ! j))
               (score ops textProfile (languages ! k))"
    and "languageCode (languages ! k) \<noteq> ''Err''"
  shows "identifyLanguage conv ops text languages = Inr (languageCode (languages ! k))"
  using assms(1,6) language_loop_index [OF assms(2-5)]
  by (simp add: identifyLanguage_def)

theorem identifyLanguage_earliest_top_witness:
  "buildTrigramProfile ascii_convert real_ops [''abc''] =
     Inr [(''abc'', 1), (''bc'', 1), (''c'', 1)] \<and>
   map (score real_ops [(''abc'', 1), (''bc'', 1), (''c'', 1)])
     [\<lparr>languageCode = ''eng'', trigramProfile = [(''xyz'', 1)]\<rparr>,
      \<lparr>languageCode = ''fra'', trigramProfile = [(''abc'', 1)]\<rparr>,
      \<lparr>languageCode = ''spa'', trigramProfile = [(''bc'', 1)]\<rparr>] = [0, 1, 1] \<and>
   identifyLanguage ascii_convert real_ops [''abc'']
     [\<lparr>languageCode = ''eng'', trigramProfile = [(''xyz'', 1)]\<rparr>,
      \<lparr>languageCode = ''fra'', trigramProfile = [(''abc'', 1)]\<rparr>,
      \<lparr>languageCode = ''spa'', trigramProfile = [(''bc'', 1)]\<rparr>] = Inr ''fra''"
proof -
  let ?tp = "[(''abc'', 1 :: real), (''bc'', 1), (''c'', 1)]"
  let ?ls = "[\<lparr>languageCode = ''eng'', trigramProfile = [(''xyz'', 1 :: real)]\<rparr>,
      \<lparr>languageCode = ''fra'', trigramProfile = [(''abc'', 1)]\<rparr>,
      \<lparr>languageCode = ''spa'', trigramProfile = [(''bc'', 1)]\<rparr>]"
  have s: "map (score real_ops ?tp) ?ls = [0, 1, 1]"
    by (simp add: score_def getCosineSimilarity_def real_ops_def)
  have k: "(1 :: nat) < length ?ls" by simp
  have pos: "fgt real_ops (score real_ops ?tp (?ls ! 1)) (fzero real_ops)"
    by (simp add: score_def getCosineSimilarity_def real_ops_def)
  have before: "\<forall>j<1. fgt real_ops (score real_ops ?tp (?ls ! 1)) (score real_ops ?tp (?ls ! j))"
    by (simp add: score_def getCosineSimilarity_def real_ops_def)
  have after: "\<forall>j<length ?ls. 1 < j \<longrightarrow>
      \<not> fgt real_ops (score real_ops ?tp (?ls ! j)) (score real_ops ?tp (?ls ! 1))"
    by (simp add: score_def getCosineSimilarity_def real_ops_def less_Suc_eq)
  have code: "languageCode (?ls ! 1) \<noteq> ''Err''" by simp
  from identifyLanguage_earliest_top [OF build_abc k pos before after code] build_abc s
  show ?thesis by simp
qed

text \<open>
  Claim C3 as it is written says that the earliest language with the top score is returned
  for every collection. Of two languages with the score 1 of which the first has the code
  \<open>''Err''\<close>, the first is not returned; and of two languages with the score 0, the top
  score, the first is not returned either.
\<close>

theorem identifyLanguage_earliest_top_counterexample:
  "buildTrigramProfile ascii_convert real_ops [''abc''] =
     Inr [(''abc'', 1), (''bc'', 1), (''c'', 1)] \<and>
   score real_ops [(''abc'', 1), (''bc'', 1), (''c'', 1)]
     \<lparr>languageCode = ''Err'', trigramProfile = [(''abc'', 1)]\<rparr> = 1 \<and>
   score real_ops [(''abc'', 1), (''bc'', 1), (''c'', 1)]
     \<lparr>languageCode = ''eng'', trigramProfile = [(''abc'', 1)]\<rparr> = 1 \<and>
   identifyLanguage ascii_convert real_ops [''abc'']
     [\<lparr>languageCode = ''Err'', trigramProfile = [(''abc'', 1)]\<rparr>,
      \<lparr>languageCode = ''eng'', trigramProfile = [(''abc'', 1)]\<rparr>] \<noteq> Inr ''Err'' \<and>
   score real_ops [(''abc'', 1), (''bc'', 1), (''c'', 1)]
     \<lparr>languageCode = ''eng'', trigramProfile = [(''xyz'', 1)]\<rparr> = 0 \<and>
   score real_ops [(''abc'', 1), (''bc'', 1), (''c'', 1)]
     \<lparr>languageCode = ''fra'', trigramProfile = [(''xyz'', 1)]\<rparr> = 0 \<and>
   identifyLanguage ascii_convert real_ops [''abc'']
     [\<lparr>languageCode = ''eng'', trigramProfile = [(''xyz'', 1)]\<rparr>,
      \<lparr>languageCode = ''fra'', trigramProfile = [(''xyz'', 1)]\<rparr>] \<noteq> Inr ''eng''"
  by (simp add: build_abc identify_abc)
    (simp add: language_loop_def language_step_def score_def
      getCosineSimilarity_def real_ops_def noMatchMessage_def)

text \<open>
  Claim C10, as the code has it. When the language that is selected, the earliest of those
  with the top score, that score being greater than 0, has the code \<open>''Err''\<close>,
  \<^verbatim>\<open>identifyLanguage\<close> returns the message for no match and not the code.
\<close>

theorem identifyLanguage_Err_collision:
  assumes "buildTrigramProfile conv ops text = Inr textProfile"
    and "k < length languages"
    and "languageCode (languages ! k) = ''Err''"
    and "fgt ops (score ops textProfile (languages ! k)) (fzero ops)"
    and "\<forall>j<k. fgt ops (score ops textProfile (languages ! k))
                  (score ops textProfile (languages ! j))"
    and "\<forall>j<length languages. k < j \<longrightarrow>
           \<not> fgt ops (score ops textProfile (languages ! j))
               (score ops textProfile (languages ! k))"
  shows "identifyLanguage conv ops text languages = Inr noMatchMessage"
  using assms(1,3) language_loop_index [OF assms(2) assms(4-6)]
  by (simp add: identifyLanguage_def)

theorem identifyLanguage_Err_collision_witness:
  "buildTrigramProfile ascii_convert real_ops [''abc''] =
     Inr [(''abc'', 1), (''bc'', 1), (''c'', 1)] \<and>
   map (score real_ops [(''abc'', 1), (''bc'', 1), (''c'', 1)])
     [\<lparr>languageCode = ''eng'', trigramProfile = [(''bc'', 1)]\<rparr>,
      \<lparr>languageCode = ''Err'', trigramProfile = [(''abc'', 2)]\<rparr>,
      \<lparr>languageCode = ''spa'', trigramProfile = [(''c'', 2)]\<rparr>] = [1, 2, 2] \<and>
   identifyLanguage ascii_convert real_ops [''abc'']
     [\<lparr>languageCode = ''eng'', trigramProfile = [(''bc'', 1)]\<rparr>,
      \<lparr>languageCode = ''Err'', trigramProfile = [(''abc'', 2)]\<rparr>,
      \<lparr>languageCode = ''spa'', trigramProfile = [(''c'', 2)]\<rparr>] = Inr noMatchMessage \<and>
   noMatchMessage \<noteq> ''Err''"
proof -
  let ?tp = "[(''abc'', 1 :: real), (''bc'', 1), (''c'', 1)]"
  let ?ls = "[\<lparr>languageCode = ''eng'', trigramProfile = [(''bc'', 1 :: real)]\<rparr>,
      \<lparr>languageCode = ''Err'', trigramProfile = [(''abc'', 2)]\<rparr>,
      \<lparr>languageCode = ''spa'', trigramProfile = [(''c'', 2)]\<rparr>]"
  have s: "map (score real_ops ?tp) ?ls = [1, 2, 2]"
    by (simp add: score_def getCosineSimilarity_def real_ops_def)
  have k: "(1 :: nat) < length ?ls" by simp
  have code: "languageCode (?ls ! 1) = ''Err''" by simp
  have pos: "fgt real_ops (score real_ops ?tp (?ls ! 1)) (fzero real_ops)"
    by (simp add: score_def getCosineSimilarity_def real_ops_def)
  have before: "\<forall>j<1. fgt real_ops (score real_ops ?tp (?ls ! 1)) (score real_ops ?tp (?ls ! j))"
    by (simp add: score_def getCosineSimilarity_def real_ops_def)
  have after: "\<forall>j<length ?ls. 1 < j \<longrightarrow>
      \<not> fgt real_ops (score real_ops ?tp (?ls ! j)) (score real_ops ?tp (?ls ! 1))"
    by (simp add: score_def getCosineSimilarity_def real_ops_def less_Suc_eq)
  have m: "noMatchMessage \<noteq> ''Err''" by (simp add: noMatchMessage_def)
  from identifyLanguage_Err_collision [OF build_abc k code pos before after] build_abc s m
  show ?thesis by simp
qed

text \<open>
  Claim C10 as it is written asks only that the language with the code \<open>''Err''\<close> has the
  highest score. When an earlier language has the same score, that language is selected
  and its code is returned.
\<close>

theorem identifyLanguage_Err_collision_counterexample:
  "buildTrigramProfile ascii_convert real_ops [''abc''] =
     Inr [(''abc'', 1), (''bc'', 1), (''c'', 1)] \<and>
   map (score real_ops [(''abc'', 1), (''bc'', 1), (''c'', 1)])
     [\<lparr>languageCode = ''eng'', trigramProfile = [(''abc'', 1)]\<rparr>,
      \<lparr>languageCode = ''Err'', trigramProfile = [(''abc'', 1)]\<rparr>] = [1, 1] \<and>
   identifyLanguage ascii_convert real_ops [''abc'']
     [\<lparr>languageCode = ''eng'', trigramProfile = [(''abc'', 1)]\<rparr>,
      \<lparr>languageCode = ''Err'', trigramProfile = [(''abc'', 1)]\<rparr>] = Inr ''eng'' \<and>
   Inr ''eng'' \<noteq> (Inr noMatchMessage :: error + string)"
  by (simp add: build_abc identify_abc)
    (simp add: language_loop_def language_step_def score_def
      getCosineSimilarity_def real_ops_def noMatchMessage_def)

end
